theory Spec2Isabelle
  imports Complex_Main "HOL-Library.Word"
begin

section \<open>The OBD acquisition task of ESP32\_OBDII\_OLED.ino\<close>

text \<open>
  The embedding follows the state-machine revision of \<^verbatim>\<open>obdTask\<close>
  (ESP32\_OBDII\_OLED.ino, lines 327--513) and the instant-MPG computation of
  \<^verbatim>\<open>loop\<close> (lines 651--677 of the same file).

  \<^item> \<^verbatim>\<open>uint32_t\<close> values (\<^verbatim>\<open>millis()\<close>, the cached time stamps, the drive
    timer) are 32-bit words: \<open>-\<close> and \<open>+\<close> wrap around as in C.
  \<^item> In \<^verbatim>\<open>obdTask\<close> the \<^verbatim>\<open>float_t\<close> and \<^verbatim>\<open>double\<close> values are
    modelled as \<open>real\<close>: the arithmetic is the one the code writes down, without the
    rounding of the binary formats.
  \<^item> In the instant-MPG computation of \<^verbatim>\<open>loop\<close> the printed integer depends on
    that rounding, so there every operation is rounded to its format: binary64 for
    \<^verbatim>\<open>double\<close>, binary32 for \<^verbatim>\<open>float_t\<close> (round to nearest, ties to even;
    normal range, without overflow, subnormals or NaN, which readings of the OBD
    protocol never reach).
  \<^item> \<^verbatim>\<open>myELM327.nb_rx_state\<close> is only ever compared with \<^verbatim>\<open>ELM_SUCCESS\<close>
    and \<^verbatim>\<open>ELM_GETTING_MSG\<close>; every other status of the ELMduino library is the
    third constructor.
  \<^item> \<^verbatim>\<open>xSemaphoreTake(dataMutex, portMAX_DELAY)\<close> blocks until it holds the
    mutex, so every critical section of the task is executed.
\<close>

datatype ObdState =
  OBD_STATE_KPH | OBD_STATE_MAF | OBD_STATE_RPM | OBD_STATE_LOAD | OBD_STATE_FUEL | OBD_STATE_DTC

datatype rx_state = ELM_SUCCESS | ELM_GETTING_MSG | ELM_ERROR

text \<open>The \<^verbatim>\<open>volatile\<close> globals shared with \<^verbatim>\<open>loop\<close> (lines 315--324).\<close>

record globals =
  global_vss_kph :: real
  global_maf :: real
  global_rpm :: real
  global_load :: real
  global_fuel :: real
  global_totalDistanceTraveled :: real
  global_totalDistanceTraveledTimer :: "32 word"
  global_totalFuelConsumed :: real
  global_lastDataUpdate :: "32 word"
  global_mode :: int

text \<open>The \<^verbatim>\<open>static\<close> locals of \<^verbatim>\<open>obdTask\<close> (lines 330--336).\<close>

record statics =
  lastSuccessfulMpgPollTime :: "32 word"
  currentState :: ObdState
  temp_kph :: real
  prev_kph :: real
  prev_maf :: real
  lastSpeedTime :: "32 word"
  lastFuelTime :: "32 word"

definition init_globals :: globals where
  "init_globals =
     \<lparr>global_vss_kph = - 1, global_maf = - 1, global_rpm = - 1, global_load = - 1,
      global_fuel = - 1, global_totalDistanceTraveled = 0,
      global_totalDistanceTraveledTimer = 0, global_totalFuelConsumed = 0,
      global_lastDataUpdate = 0, global_mode = 1\<rparr>"

definition init_statics :: statics where
  "init_statics =
     \<lparr>lastSuccessfulMpgPollTime = 0, currentState = OBD_STATE_KPH, temp_kph = 0,
      prev_kph = 0, prev_maf = 0, lastSpeedTime = 0, lastFuelTime = 0\<rparr>"

subsection \<open>case OBD\_STATE\_KPH\<close>

text \<open>The locals \<^verbatim>\<open>time_delta_ms\<close> and \<^verbatim>\<open>dist_delta\<close> of lines 347--360.\<close>

definition time_delta_ms :: "statics \<Rightarrow> 32 word \<Rightarrow> 32 word" where
  "time_delta_ms s now = (if lastSpeedTime s > 0 then now - lastSpeedTime s else 0)"

definition dist_delta :: "statics \<Rightarrow> real \<Rightarrow> 32 word \<Rightarrow> real" where
  "dist_delta s v now =
     (if lastSpeedTime s > 0 then
        (let time_hours = real (unat (time_delta_ms s now)) / 3600000 in
         if v > 0 \<or> prev_kph s > 0 then
           (let avg_speed = (v + prev_kph s) / 2 in avg_speed * time_hours)
         else 0)
      else 0)"

definition state_kph :: "real \<Rightarrow> rx_state \<Rightarrow> 32 word \<Rightarrow> statics \<times> globals \<Rightarrow> statics \<times> globals" where
  "state_kph v rx now sg =
     (let s = fst sg; g = snd sg in
      if rx = ELM_SUCCESS then
        (s\<lparr>temp_kph := v, lastSpeedTime := now, prev_kph := v, currentState := OBD_STATE_MAF\<rparr>,
         g\<lparr>global_vss_kph := v,
           global_totalDistanceTraveled := global_totalDistanceTraveled g + dist_delta s v now,
           global_totalDistanceTraveledTimer :=
             (if v > 0 then global_totalDistanceTraveledTimer g + time_delta_ms s now
              else global_totalDistanceTraveledTimer g),
           global_lastDataUpdate := now\<rparr>)
      else if rx \<noteq> ELM_GETTING_MSG then (s, g)
      else (s, g))"

subsection \<open>case OBD\_STATE\_MAF\<close>

text \<open>The local \<^verbatim>\<open>fuel_delta\<close> of lines 387--400.\<close>

definition fuel_delta :: "statics \<Rightarrow> real \<Rightarrow> 32 word \<Rightarrow> real" where
  "fuel_delta s v now =
     (if lastFuelTime s > 0 then
        (let time_hours = real (unat (now - lastFuelTime s)) / 3600000 in
         if v > 0 \<or> prev_maf s > 0 then
           (let avg_maf = (v + prev_maf s) / 2;
                avg_fuel_rate = avg_maf * 0.33094
            in avg_fuel_rate * time_hours)
         else 0)
      else 0)"

definition state_maf :: "real \<Rightarrow> rx_state \<Rightarrow> 32 word \<Rightarrow> statics \<times> globals \<Rightarrow> statics \<times> globals" where
  "state_maf v rx now sg =
     (let s = fst sg; g = snd sg in
      if rx = ELM_SUCCESS then
        (let local_mode = global_mode g in
         (s\<lparr>lastFuelTime := now, prev_maf := v,
            currentState :=
              (if local_mode = 4 then OBD_STATE_RPM
               else if local_mode = 6 then OBD_STATE_DTC
               else OBD_STATE_KPH)\<rparr>,
          g\<lparr>global_maf := v,
            global_totalFuelConsumed := global_totalFuelConsumed g + fuel_delta s v now,
            global_lastDataUpdate := now\<rparr>))
      else if rx \<noteq> ELM_GETTING_MSG then (s\<lparr>currentState := OBD_STATE_KPH\<rparr>, g)
      else (s, g))"

subsection \<open>The secondary parameters and the diagnostics state\<close>

definition state_rpm :: "real \<Rightarrow> rx_state \<Rightarrow> 32 word \<Rightarrow> statics \<times> globals \<Rightarrow> statics \<times> globals" where
  "state_rpm v rx now sg =
     (let s = fst sg; g = snd sg in
      if rx = ELM_SUCCESS then
        (s\<lparr>currentState := OBD_STATE_LOAD\<rparr>, g\<lparr>global_rpm := v, global_lastDataUpdate := now\<rparr>)
      else if rx \<noteq> ELM_GETTING_MSG then (s\<lparr>currentState := OBD_STATE_LOAD\<rparr>, g)
      else (s, g))"

definition state_load :: "real \<Rightarrow> rx_state \<Rightarrow> 32 word \<Rightarrow> statics \<times> globals \<Rightarrow> statics \<times> globals" where
  "state_load v rx now sg =
     (let s = fst sg; g = snd sg in
      if rx = ELM_SUCCESS then
        (s\<lparr>currentState := OBD_STATE_FUEL\<rparr>, g\<lparr>global_load := v, global_lastDataUpdate := now\<rparr>)
      else if rx \<noteq> ELM_GETTING_MSG then (s\<lparr>currentState := OBD_STATE_FUEL\<rparr>, g)
      else (s, g))"

definition state_fuel :: "real \<Rightarrow> rx_state \<Rightarrow> 32 word \<Rightarrow> statics \<times> globals \<Rightarrow> statics \<times> globals" where
  "state_fuel v rx now sg =
     (let s = fst sg; g = snd sg in
      if rx = ELM_SUCCESS then
        (s\<lparr>currentState := OBD_STATE_KPH\<rparr>, g\<lparr>global_fuel := v, global_lastDataUpdate := now\<rparr>)
      else if rx \<noteq> ELM_GETTING_MSG then (s\<lparr>currentState := OBD_STATE_KPH\<rparr>, g)
      else (s, g))"

text \<open>\<^verbatim>\<open>case OBD_STATE_DTC: { break; }\<close> issues no query and changes nothing.\<close>

definition state_dtc :: "statics \<times> globals \<Rightarrow> statics \<times> globals" where
  "state_dtc sg = sg"

subsection \<open>The reconnection branch (lines 490--509)\<close>

text \<open>
  The branch stores \<open>-1\<close> in \<^verbatim>\<open>global_vss_kph\<close> under the mutex, tries to
  reconnect (whose outcome is what \<^verbatim>\<open>ELM_PORT.connected()\<close> reports at the next
  iteration) and clears \<^verbatim>\<open>lastSuccessfulMpgPollTime\<close>.
\<close>

definition link_down :: "statics \<times> globals \<Rightarrow> statics \<times> globals" where
  "link_down sg =
     (let s = fst sg; g = snd sg in
      (s\<lparr>lastSuccessfulMpgPollTime := 0\<rparr>, g\<lparr>global_vss_kph := - 1\<rparr>))"

subsection \<open>One iteration of the task loop, and runs of it\<close>

text \<open>
  What one iteration of \<^verbatim>\<open>for (;;)\<close> reads from its environment: either
  \<^verbatim>\<open>ELM_PORT.connected()\<close> is true and the query of the current state returns
  a value, leaves a receive status and \<^verbatim>\<open>millis()\<close> is read once; or the link
  is down. Between two iterations \<^verbatim>\<open>loop\<close>, on the other core, may store its
  \<^verbatim>\<open>local_mode\<close> in \<^verbatim>\<open>global_mode\<close> (line 637).
\<close>

datatype input = Poll real rx_state "32 word" | Disconnected | ModeWrite int

fun obdTask_iter :: "input \<Rightarrow> statics \<times> globals \<Rightarrow> statics \<times> globals" where
  "obdTask_iter (Poll v rx now) sg =
     (case currentState (fst sg) of
        OBD_STATE_KPH \<Rightarrow> state_kph v rx now sg
      | OBD_STATE_MAF \<Rightarrow> state_maf v rx now sg
      | OBD_STATE_RPM \<Rightarrow> state_rpm v rx now sg
      | OBD_STATE_LOAD \<Rightarrow> state_load v rx now sg
      | OBD_STATE_FUEL \<Rightarrow> state_fuel v rx now sg
      | OBD_STATE_DTC \<Rightarrow> state_dtc sg)"
| "obdTask_iter Disconnected sg = link_down sg"
| "obdTask_iter (ModeWrite m) sg = (fst sg, (snd sg)\<lparr>global_mode := m\<rparr>)"

fun obdTask :: "input list \<Rightarrow> statics \<times> globals \<Rightarrow> statics \<times> globals" where
  "obdTask [] sg = sg"
| "obdTask (i # is) sg = obdTask is (obdTask_iter i sg)"

section \<open>Binary floating point\<close>

text \<open>The number of binary digits of a natural number.\<close>

function bits :: "nat \<Rightarrow> nat" where
  "bits n = (if n = 0 then 0 else Suc (bits (n div 2)))"
  by pat_completeness auto
termination
  by (relation "measure id") auto

declare bits.simps [simp del]

definition pow2 :: "int \<Rightarrow> real" where
  "pow2 k = (if 0 \<le> k then 2 ^ nat k else 1 / 2 ^ nat (- k))"

text \<open>The binary exponent of a positive number: \<open>2 ^ ilog2 x \<le> x < 2 ^ (ilog2 x + 1)\<close>.\<close>

definition ilog2 :: "real \<Rightarrow> int" where
  "ilog2 x = (if 1 \<le> x then int (bits (nat \<lfloor>x\<rfloor>)) - 1
              else - int (bits (nat (\<lceil>1 / x\<rceil> - 1))))"

text \<open>The nearest integer, ties to the even one.\<close>

definition rne :: "real \<Rightarrow> int" where
  "rne x = (if x - of_int \<lfloor>x\<rfloor> < 1 / 2 then \<lfloor>x\<rfloor>
            else if x - of_int \<lfloor>x\<rfloor> > 1 / 2 then \<lfloor>x\<rfloor> + 1
            else if even \<lfloor>x\<rfloor> then \<lfloor>x\<rfloor> else \<lfloor>x\<rfloor> + 1)"

text \<open>The unit in the last place of a positive number at \<open>p\<close> significant bits, and
  rounding to \<open>p\<close> significant bits.\<close>

definition ulp :: "nat \<Rightarrow> real \<Rightarrow> real" where
  "ulp p a = pow2 (ilog2 a - (int p - 1))"

definition round_to :: "nat \<Rightarrow> real \<Rightarrow> real" where
  "round_to p x =
     (if x = 0 then 0 else sgn x * (of_int (rne (\<bar>x\<bar> / ulp p \<bar>x\<bar>)) * ulp p \<bar>x\<bar>))"

definition binary32 :: "real \<Rightarrow> real" where
  "binary32 = round_to 24"

definition binary64 :: "real \<Rightarrow> real" where
  "binary64 = round_to 53"

section \<open>The instant-MPG computation of loop (lines 651--677)\<close>

text \<open>
  \<^verbatim>\<open>round\<close> rounds to the nearest integer, halves away from zero.
\<close>

definition c_round :: "real \<Rightarrow> real" where
  "c_round x = (if 0 \<le> x then of_int \<lfloor>x + 1 / 2\<rfloor> else - of_int \<lfloor>- x + 1 / 2\<rfloor>)"

definition isInstantMpgValid :: "real \<Rightarrow> real \<Rightarrow> bool" where
  "isInstantMpgValid local_kph local_maf = (local_kph > 0 \<and> local_maf > 0)"

text \<open>
  The expression under \<^verbatim>\<open>round\<close> at line 656,
  \<^verbatim>\<open>(14.7 * 6.17 * 4.54 * local_kph * 0.621371) / (3600 * local_maf / 100)\<close>.
  The literals are \<^verbatim>\<open>double\<close>, so the numerator is evaluated from left to right in
  binary64; \<^verbatim>\<open>3600 * local_maf / 100\<close> has a \<^verbatim>\<open>float_t\<close> and two \<^verbatim>\<open>int\<close>
  operands and is evaluated in binary32; the quotient is a binary64 division.
\<close>

definition mpg_formula :: "real \<Rightarrow> real \<Rightarrow> real" where
  "mpg_formula local_kph local_maf =
     binary64
       (binary64 (binary64 (binary64 (binary64 (binary64 14.7 * binary64 6.17)
            * binary64 4.54) * local_kph) * binary64 0.621371)
        / binary32 (binary32 (3600 * local_maf) / 100))"

text \<open>
  \<^verbatim>\<open>inst_mpg\<close> after lines 652--658: the rounded quotient is stored in a
  \<^verbatim>\<open>float_t\<close> and then clamped. The first argument is the literal of the clamp:
  \<open>99.0\<close> at line 657, \<open>90.0\<close> in the revisions of the sketch that are otherwise the same
  computation (unnamed/part\_001 lines 284--289, unnamed/part\_003 lines 306--311).
\<close>

definition inst_mpg :: "real \<Rightarrow> real \<Rightarrow> real \<Rightarrow> real" where
  "inst_mpg cap local_kph local_maf =
     (if isInstantMpgValid local_kph local_maf then
        (if binary32 (c_round (mpg_formula local_kph local_maf)) > cap then cap
         else binary32 (c_round (mpg_formula local_kph local_maf)))
      else 0)"

text \<open>What lines 671--677 print in the large font.\<close>

datatype printed = PrintNumber real | PrintText string

definition instant_mpg_display :: "real \<Rightarrow> real \<Rightarrow> real \<Rightarrow> printed" where
  "instant_mpg_display cap local_kph local_maf =
     (if isInstantMpgValid local_kph local_maf then
        PrintNumber (c_round (inst_mpg cap local_kph local_maf))
      else if local_kph = 0 \<and> local_maf > 0 then PrintText ''00''
      else PrintText ''--'')"

section \<open>Auxiliary notions for the statements\<close>

text \<open>The cached previous samples are not negative.\<close>

definition caches_nonneg :: "statics \<Rightarrow> bool" where
  "caches_nonneg s = (0 \<le> prev_kph s \<and> 0 \<le> prev_maf s)"

text \<open>A successful query never delivers a negative reading.\<close>

fun nonneg_input :: "input \<Rightarrow> bool" where
  "nonneg_input (Poll v rx now) = (rx \<noteq> ELM_SUCCESS \<or> 0 \<le> v)"
| "nonneg_input Disconnected = True"
| "nonneg_input (ModeWrite m) = True"

section \<open>Evaluation and arithmetic helpers\<close>

lemmas step_defs = state_kph_def state_maf_def state_rpm_def state_load_def state_fuel_def
  state_dtc_def link_down_def dist_delta_def time_delta_ms_def fuel_delta_def

lemmas init_defs = init_statics_def init_globals_def

lemma unsigned_real_nonneg: "0 \<le> real (unat (w :: 32 word))"
  by (rule of_nat_0_le_iff)

lemma unsigned_real_pos: "w \<noteq> 0 \<Longrightarrow> 0 < real (unat (w :: 32 word))"
  unfolding of_nat_0_less_iff unat_gt_0 .

text \<open>Without a wrap of the clock between the two samples the word difference is the
  difference of the two ticks.\<close>

lemma elapsed_no_wrap:
  "(t0 :: 32 word) \<le> t1 \<Longrightarrow> unat (t1 - t0) = unat t1 - unat t0"
  by (rule unat_sub)

lemma obdTask_append: "obdTask (is @ js) sg = obdTask js (obdTask is sg)"
  by (induction "is" arbitrary: sg) simp_all

section \<open>Trapezoidal distance integration\<close>



section \<open>Link loss and reconnection\<close>

text \<open>
  C2, evaluated. 10 km and 0.66188 l are accumulated, the link is reported down for two
  iterations and comes back. The totals are untouched by the link-down steps, but
  \<^verbatim>\<open>lastSpeedTime\<close>, \<^verbatim>\<open>prev_kph\<close>, \<^verbatim>\<open>lastFuelTime\<close> and \<^verbatim>\<open>prev_maf\<close> are
  not cleared (only \<^verbatim>\<open>lastSuccessfulMpgPollTime\<close> is), so the first speed sample
  after the gap adds the 10 km of the gap and the first MAF sample its 0.66188 l.
\<close>

theorem reconnect_delta_across_gap:
  "global_totalDistanceTraveled (snd (obdTask
      [Poll 100 ELM_SUCCESS 1000, Poll 20 ELM_SUCCESS 1100,
       Poll 100 ELM_SUCCESS 361000, Poll 20 ELM_SUCCESS 361100]
      (init_statics, init_globals))) = 10 \<and>
   global_totalFuelConsumed (snd (obdTask
      [Poll 100 ELM_SUCCESS 1000, Poll 20 ELM_SUCCESS 1100,
       Poll 100 ELM_SUCCESS 361000, Poll 20 ELM_SUCCESS 361100]
      (init_statics, init_globals))) = 0.66188 \<and>
   global_totalDistanceTraveled (snd (obdTask
      [Poll 100 ELM_SUCCESS 1000, Poll 20 ELM_SUCCESS 1100,
       Poll 100 ELM_SUCCESS 361000, Poll 20 ELM_SUCCESS 361100,
       Disconnected, Disconnected]
      (init_statics, init_globals))) = 10 \<and>
   global_totalFuelConsumed (snd (obdTask
      [Poll 100 ELM_SUCCESS 1000, Poll 20 ELM_SUCCESS 1100,
       Poll 100 ELM_SUCCESS 361000, Poll 20 ELM_SUCCESS 361100,
       Disconnected, Disconnected]
      (init_statics, init_globals))) = 0.66188 \<and>
   global_totalDistanceTraveled (snd (obdTask
      [Poll 100 ELM_SUCCESS 1000, Poll 20 ELM_SUCCESS 1100,
       Poll 100 ELM_SUCCESS 361000, Poll 20 ELM_SUCCESS 361100,
       Disconnected, Disconnected,
       Poll 100 ELM_SUCCESS 721000, Poll 20 ELM_SUCCESS 721100]
      (init_statics, init_globals))) = 20 \<and>
   global_totalFuelConsumed (snd (obdTask
      [Poll 100 ELM_SUCCESS 1000, Poll 20 ELM_SUCCESS 1100,
       Poll 100 ELM_SUCCESS 361000, Poll 20 ELM_SUCCESS 361100,
       Disconnected, Disconnected,
       Poll 100 ELM_SUCCESS 721000, Poll 20 ELM_SUCCESS 721100]
      (init_statics, init_globals))) = 1.32376"
  by (simp add: step_defs init_defs)

section \<open>Monotonicity of the cumulative totals\<close>

lemma dist_delta_nonneg: "0 \<le> prev_kph s \<Longrightarrow> 0 \<le> v \<Longrightarrow> 0 \<le> dist_delta s v now"
  unfolding dist_delta_def Let_def
  using unsigned_real_nonneg by (auto intro!: mult_nonneg_nonneg divide_nonneg_nonneg)

lemma fuel_delta_nonneg: "0 \<le> prev_maf s \<Longrightarrow> 0 \<le> v \<Longrightarrow> 0 \<le> fuel_delta s v now"
  unfolding fuel_delta_def Let_def
  using unsigned_real_nonneg by (auto intro!: mult_nonneg_nonneg divide_nonneg_nonneg)

lemma iter_caches_nonneg:
  assumes "nonneg_input i" "caches_nonneg (fst sg)"
  shows "caches_nonneg (fst (obdTask_iter i sg))"
proof (cases i)
  case (Poll v rx now)
  with assms show ?thesis
    by (cases "currentState (fst sg)")
       (auto simp: caches_nonneg_def state_kph_def state_maf_def state_rpm_def
          state_load_def state_fuel_def state_dtc_def Let_def)
next
  case Disconnected
  with assms show ?thesis by (simp add: caches_nonneg_def link_down_def)
next
  case (ModeWrite m)
  with assms show ?thesis by simp
qed

lemma iter_totals_mono:
  assumes "nonneg_input i" "caches_nonneg (fst sg)"
  shows "global_totalDistanceTraveled (snd sg)
           \<le> global_totalDistanceTraveled (snd (obdTask_iter i sg)) \<and>
         global_totalFuelConsumed (snd sg)
           \<le> global_totalFuelConsumed (snd (obdTask_iter i sg))"
proof (cases i)
  case (Poll v rx now)
  show ?thesis
  proof (cases "rx = ELM_SUCCESS")
    case True
    with assms Poll have v: "0 \<le> v" by simp
    from assms have p: "0 \<le> prev_kph (fst sg)" "0 \<le> prev_maf (fst sg)"
      by (simp_all add: caches_nonneg_def)
    from dist_delta_nonneg [OF p(1) v] fuel_delta_nonneg [OF p(2) v] Poll True show ?thesis
      by (cases "currentState (fst sg)")
         (simp_all add: state_kph_def state_maf_def state_rpm_def
            state_load_def state_fuel_def state_dtc_def Let_def)
  next
    case False
    with Poll show ?thesis
      by (cases "currentState (fst sg)")
         (simp_all add: state_kph_def state_maf_def state_rpm_def
            state_load_def state_fuel_def state_dtc_def Let_def)
  qed
next
  case Disconnected
  then show ?thesis by (simp add: link_down_def)
next
  case (ModeWrite m)
  then show ?thesis by simp
qed

lemma run_totals_mono:
  "list_all nonneg_input is \<Longrightarrow> caches_nonneg (fst sg) \<Longrightarrow>
   caches_nonneg (fst (obdTask is sg)) \<and>
   global_totalDistanceTraveled (snd sg) \<le> global_totalDistanceTraveled (snd (obdTask is sg)) \<and>
   global_totalFuelConsumed (snd sg) \<le> global_totalFuelConsumed (snd (obdTask is sg))"
proof (induction "is" arbitrary: sg)
  case Nil
  then show ?case by simp
next
  case (Cons i "is")
  from Cons.prems have i: "nonneg_input i" and r: "list_all nonneg_input is" by simp_all
  note inv = iter_caches_nonneg [OF i Cons.prems(2)]
  note step = iter_totals_mono [OF i Cons.prems(2)]
  from Cons.IH [OF r inv] step show ?case by auto
qed

text \<open>
  C3. Start the task in its initial state and feed it any sequence of iterations (polls
  that succeed, are pending or fail, link losses, mode changes by the display loop) in
  which no successful query delivers a negative reading. The totals published after any
  prefix \<open>is\<close> of the run are at most the totals published after any longer run
  \<open>is @ js\<close>: neither total ever decreases.
\<close>

theorem totals_monotone:
  assumes "list_all nonneg_input is" "list_all nonneg_input js"
  shows "global_totalDistanceTraveled (snd (obdTask is (init_statics, init_globals)))
           \<le> global_totalDistanceTraveled (snd (obdTask (is @ js) (init_statics, init_globals))) \<and>
         global_totalFuelConsumed (snd (obdTask is (init_statics, init_globals)))
           \<le> global_totalFuelConsumed (snd (obdTask (is @ js) (init_statics, init_globals)))"
proof -
  have c0: "caches_nonneg (fst (init_statics, init_globals))"
    by (simp add: caches_nonneg_def init_statics_def)
  from run_totals_mono [OF assms(1) c0]
  have c1: "caches_nonneg (fst (obdTask is (init_statics, init_globals)))" by simp
  from run_totals_mono [OF assms(2) c1] show ?thesis
    by (simp add: obdTask_append)
qed

theorem totals_monotone_witness:
  "list_all nonneg_input [Poll 50 ELM_SUCCESS 1000, Poll 10 ELM_SUCCESS 1100, Disconnected] \<and>
   list_all nonneg_input [Poll 0 ELM_SUCCESS 5000, Poll 0 ELM_ERROR 5100, ModeWrite 4] \<and>
   global_totalDistanceTraveled (snd (obdTask
       [Poll 50 ELM_SUCCESS 1000, Poll 10 ELM_SUCCESS 1100, Disconnected]
       (init_statics, init_globals)))
     \<le> global_totalDistanceTraveled (snd (obdTask
       ([Poll 50 ELM_SUCCESS 1000, Poll 10 ELM_SUCCESS 1100, Disconnected]
          @ [Poll 0 ELM_SUCCESS 5000, Poll 0 ELM_ERROR 5100, ModeWrite 4])
       (init_statics, init_globals))) \<and>
   global_totalFuelConsumed (snd (obdTask
       [Poll 50 ELM_SUCCESS 1000, Poll 10 ELM_SUCCESS 1100, Disconnected]
       (init_statics, init_globals)))
     \<le> global_totalFuelConsumed (snd (obdTask
       ([Poll 50 ELM_SUCCESS 1000, Poll 10 ELM_SUCCESS 1100, Disconnected]
          @ [Poll 0 ELM_SUCCESS 5000, Poll 0 ELM_ERROR 5100, ModeWrite 4])
       (init_statics, init_globals)))"
proof -
  have a: "list_all nonneg_input [Poll 50 ELM_SUCCESS 1000, Poll 10 ELM_SUCCESS 1100, Disconnected]"
    by simp
  have b: "list_all nonneg_input [Poll 0 ELM_SUCCESS 5000, Poll 0 ELM_ERROR 5100, ModeWrite 4]"
    by simp
  from totals_monotone [OF a b] a b show ?thesis by blast
qed

section \<open>Trapezoidal fuel integration\<close>



section \<open>The first sample\<close>

text \<open>
  C5. A successful speed poll that finds no previous sample (\<^verbatim>\<open>lastSpeedTime\<close> is
  0, as at start-up) leaves both totals as they are, and stores the sample in
  \<^verbatim>\<open>prev_kph\<close> and its tick in \<^verbatim>\<open>lastSpeedTime\<close>; when that tick is not 0, the
  distance delta of the next sample \<open>v'\<close> at \<open>now'\<close> is the trapezoid between the two.
  The same holds for a successful MAF poll with \<^verbatim>\<open>lastFuelTime\<close>, \<^verbatim>\<open>prev_maf\<close> and
  the fuel delta.
\<close>

theorem first_sample_zero_delta:
  "(currentState s = OBD_STATE_KPH \<and> lastSpeedTime s = 0 \<longrightarrow>
      global_totalDistanceTraveled (snd (obdTask_iter (Poll v ELM_SUCCESS now) (s, g)))
        = global_totalDistanceTraveled g \<and>
      global_totalFuelConsumed (snd (obdTask_iter (Poll v ELM_SUCCESS now) (s, g)))
        = global_totalFuelConsumed g \<and>
      prev_kph (fst (obdTask_iter (Poll v ELM_SUCCESS now) (s, g))) = v \<and>
      lastSpeedTime (fst (obdTask_iter (Poll v ELM_SUCCESS now) (s, g))) = now \<and>
      (now \<noteq> 0 \<and> (0 < v \<or> 0 < v') \<longrightarrow>
         dist_delta (fst (obdTask_iter (Poll v ELM_SUCCESS now) (s, g))) v' now'
           = (v + v') / 2 * (real (unat (now' - now)) / 3600000))) \<and>
   (currentState s = OBD_STATE_MAF \<and> lastFuelTime s = 0 \<longrightarrow>
      global_totalDistanceTraveled (snd (obdTask_iter (Poll v ELM_SUCCESS now) (s, g)))
        = global_totalDistanceTraveled g \<and>
      global_totalFuelConsumed (snd (obdTask_iter (Poll v ELM_SUCCESS now) (s, g)))
        = global_totalFuelConsumed g \<and>
      prev_maf (fst (obdTask_iter (Poll v ELM_SUCCESS now) (s, g))) = v \<and>
      lastFuelTime (fst (obdTask_iter (Poll v ELM_SUCCESS now) (s, g))) = now \<and>
      (now \<noteq> 0 \<and> (0 < v \<or> 0 < v') \<longrightarrow>
         fuel_delta (fst (obdTask_iter (Poll v ELM_SUCCESS now) (s, g))) v' now'
           = (v + v') / 2 * 0.33094 * (real (unat (now' - now)) / 3600000)))"
  by (auto simp: step_defs Let_def word_greater_zero_iff add.commute)

theorem first_sample_zero_delta_witness:
  "currentState init_statics = OBD_STATE_KPH \<and> lastSpeedTime init_statics = 0 \<and>
   global_totalDistanceTraveled (snd (obdTask_iter (Poll 42 ELM_SUCCESS 1500)
      (init_statics, init_globals))) = 0 \<and>
   prev_kph (fst (obdTask_iter (Poll 42 ELM_SUCCESS 1500) (init_statics, init_globals))) = 42 \<and>
   lastSpeedTime (fst (obdTask_iter (Poll 42 ELM_SUCCESS 1500) (init_statics, init_globals))) = 1500 \<and>
   dist_delta (fst (obdTask_iter (Poll 42 ELM_SUCCESS 1500) (init_statics, init_globals))) 50 2500
     = 46 / 3600 \<and>
   currentState (fst (obdTask_iter (Poll 42 ELM_SUCCESS 1500) (init_statics, init_globals)))
     = OBD_STATE_MAF \<and>
   lastFuelTime (fst (obdTask_iter (Poll 42 ELM_SUCCESS 1500) (init_statics, init_globals))) = 0 \<and>
   global_totalFuelConsumed (snd (obdTask [Poll 42 ELM_SUCCESS 1500, Poll 7 ELM_SUCCESS 1600]
      (init_statics, init_globals))) = 0 \<and>
   prev_maf (fst (obdTask [Poll 42 ELM_SUCCESS 1500, Poll 7 ELM_SUCCESS 1600]
      (init_statics, init_globals))) = 7 \<and>
   lastFuelTime (fst (obdTask [Poll 42 ELM_SUCCESS 1500, Poll 7 ELM_SUCCESS 1600]
      (init_statics, init_globals))) = 1600"
proof -
  let ?sg = "obdTask_iter (Poll 42 ELM_SUCCESS 1500) (init_statics, init_globals)"
  have k: "currentState init_statics = OBD_STATE_KPH" "lastSpeedTime init_statics = 0"
    and d0: "global_totalDistanceTraveled init_globals = 0"
    by (simp_all add: init_defs)
  have m: "currentState (fst ?sg) = OBD_STATE_MAF" "lastFuelTime (fst ?sg) = 0"
    and f0: "global_totalFuelConsumed (snd ?sg) = 0"
    by (simp_all add: init_defs state_kph_def Let_def)
  have r: "obdTask [Poll 42 ELM_SUCCESS 1500, Poll 7 ELM_SUCCESS 1600] (init_statics, init_globals)
      = obdTask_iter (Poll 7 ELM_SUCCESS 1600) (fst ?sg, snd ?sg)"
    by simp
  have e: "(42 + 50) / 2 * (real (unat (2500 - 1500 :: 32 word)) / 3600000) = 46 / 3600"
    by simp
  from first_sample_zero_delta [of init_statics 42 1500 init_globals 50 2500] k d0 e
  have one: "global_totalDistanceTraveled (snd ?sg) = 0 \<and> prev_kph (fst ?sg) = 42 \<and>
    lastSpeedTime (fst ?sg) = 1500 \<and> dist_delta (fst ?sg) 50 2500 = 46 / 3600"
    by simp
  from first_sample_zero_delta [of "fst ?sg" 7 1600 "snd ?sg" 0 0] m f0
  have two: "global_totalFuelConsumed (snd (obdTask_iter (Poll 7 ELM_SUCCESS 1600) (fst ?sg, snd ?sg))) = 0 \<and>
    prev_maf (fst (obdTask_iter (Poll 7 ELM_SUCCESS 1600) (fst ?sg, snd ?sg))) = 7 \<and>
    lastFuelTime (fst (obdTask_iter (Poll 7 ELM_SUCCESS 1600) (fst ?sg, snd ?sg))) = 1600"
    by simp
  from k m one two show ?thesis unfolding r by blast
qed

section \<open>Hard failures and pending results of the two primary queries\<close>

text \<open>
  C6. A hard failure of the speed query leaves the machine in the speed state (nothing
  changes at all), a hard failure of the MAF query moves it to the speed state, and a
  pending result (\<^verbatim>\<open>ELM_GETTING_MSG\<close>) changes nothing in either state.
\<close>

theorem failure_transitions:
  "obdTask_iter (Poll v ELM_ERROR now) (s\<lparr>currentState := OBD_STATE_KPH\<rparr>, g)
     = (s\<lparr>currentState := OBD_STATE_KPH\<rparr>, g) \<and>
   obdTask_iter (Poll v ELM_ERROR now) (s\<lparr>currentState := OBD_STATE_MAF\<rparr>, g)
     = (s\<lparr>currentState := OBD_STATE_KPH\<rparr>, g) \<and>
   obdTask_iter (Poll v ELM_GETTING_MSG now) (s\<lparr>currentState := OBD_STATE_KPH\<rparr>, g)
     = (s\<lparr>currentState := OBD_STATE_KPH\<rparr>, g) \<and>
   obdTask_iter (Poll v ELM_GETTING_MSG now) (s\<lparr>currentState := OBD_STATE_MAF\<rparr>, g)
     = (s\<lparr>currentState := OBD_STATE_MAF\<rparr>, g)"
  by (simp add: state_kph_def state_maf_def Let_def)

section \<open>Frame of the link-down step\<close>

text \<open>
  C7. When the link is reported down, the step stores the invalid marker \<open>-1\<close> in the
  published speed, so that the validity test of the presentation fails for it, and
  leaves every other published field (cumulative distance and fuel, drive timer, MAF,
  rpm, load, fuel level, last-update time stamp, mode) as it was.
\<close>

theorem link_down_frame:
  "snd (obdTask_iter Disconnected (s, g)) = g\<lparr>global_vss_kph := - 1\<rparr> \<and>
   \<not> isInstantMpgValid (global_vss_kph (snd (obdTask_iter Disconnected (s, g)))) m"
  by (simp add: link_down_def isInstantMpgValid_def)

section \<open>The last-update time stamp\<close>

text \<open>
  C8. In each of the five states that query a parameter (speed, MAF, rpm, engine load,
  fuel level), a successful poll publishes the tick read in that iteration as
  \<^verbatim>\<open>global_lastDataUpdate\<close>.
\<close>

theorem success_stamps_last_update:
  assumes "currentState s \<noteq> OBD_STATE_DTC"
  shows "global_lastDataUpdate (snd (obdTask_iter (Poll v ELM_SUCCESS now) (s, g))) = now"
  using assms by (cases "currentState s") (simp_all add: step_defs Let_def)

theorem success_stamps_last_update_witness:
  "currentState (init_statics\<lparr>currentState := OBD_STATE_LOAD\<rparr>) \<noteq> OBD_STATE_DTC \<and>
   global_lastDataUpdate (snd (obdTask_iter (Poll 37 ELM_SUCCESS 4242)
      (init_statics\<lparr>currentState := OBD_STATE_LOAD\<rparr>, init_globals))) = 4242"
proof -
  have h: "currentState (init_statics\<lparr>currentState := OBD_STATE_LOAD\<rparr>) \<noteq> OBD_STATE_DTC" by simp
  from success_stamps_last_update [OF h] h show ?thesis by blast
qed

section \<open>The binary formats round to nearest\<close>

text \<open>
  The exponent brackets its argument, and rounding to \<open>p\<close> bits moves a number by at
  most half a unit in the last place.
\<close>

lemma bits_bounds: "0 < n \<Longrightarrow> 2 ^ (bits n - 1) \<le> n \<and> n < 2 ^ bits n"
proof (induction n rule: bits.induct)
  case (1 n)
  show ?case
  proof (cases "n div 2 = 0")
    case True
    with "1.prems" have "n = 1" by (auto simp: div_eq_0_iff)
    then show ?thesis by (simp add: bits.simps)
  next
    case False
    with "1.IH" "1.prems" have ih: "2 ^ (bits (n div 2) - 1) \<le> n div 2" "n div 2 < 2 ^ bits (n div 2)"
      by simp_all
    from False have pos: "0 < bits (n div 2)" by (subst bits.simps) simp
    have b: "bits n = Suc (bits (n div 2))" using "1.prems" by (subst bits.simps) simp
    from pos have "(2::nat) ^ bits (n div 2) = 2 * 2 ^ (bits (n div 2) - 1)"
      by (cases "bits (n div 2)") simp_all
    with ih show ?thesis unfolding b by simp linarith
  qed
qed

lemma pow2_pos: "0 < pow2 k"
  by (simp add: pow2_def)

lemma ilog2_bounds:
  assumes "0 < x"
  shows "pow2 (ilog2 x) \<le> x \<and> x < 2 * pow2 (ilog2 x)"
proof (cases "1 \<le> x")
  case True
  define n where "n = nat \<lfloor>x\<rfloor>"
  from True have f: "1 \<le> \<lfloor>x\<rfloor>" by linarith
  hence rn: "real n = of_int \<lfloor>x\<rfloor>" by (simp add: n_def)
  have n: "0 < n" "real n \<le> x" "x < real n + 1"
  proof -
    from f show "0 < n" by (simp add: n_def)
    show "real n \<le> x" unfolding rn by linarith
    show "x < real n + 1" unfolding rn by linarith
  qed
  from bits_bounds [OF n(1)] have b: "2 ^ (bits n - 1) \<le> n" "n < 2 ^ bits n" by simp_all
  from n(1) have bp: "0 < bits n" by (subst bits.simps) simp
  hence e: "ilog2 x = int (bits n - 1)" using True by (simp add: ilog2_def n_def)
  have p: "pow2 (ilog2 x) = 2 ^ (bits n - 1)" unfolding e by (simp add: pow2_def)
  from bp have two: "(2::real) * 2 ^ (bits n - 1) = 2 ^ bits n"
    by (cases "bits n") simp_all
  from b(1) have "real (2 ^ (bits n - 1)) \<le> real n" by (simp only: of_nat_le_iff)
  hence "(2::real) ^ (bits n - 1) \<le> real n" by simp
  moreover have "real n + 1 \<le> 2 ^ bits n"
  proof -
    from b(2) have "Suc n \<le> 2 ^ bits n" by simp
    hence "real (Suc n) \<le> real (2 ^ bits n)" by (simp only: of_nat_le_iff)
    thus ?thesis by simp
  qed
  ultimately show ?thesis using n(2,3) unfolding p two by linarith
next
  case False
  define m where "m = nat (\<lceil>1 / x\<rceil> - 1)"
  from False assms have y: "1 < 1 / x" by simp
  hence c: "2 \<le> \<lceil>1 / x\<rceil>" by linarith
  hence "0 \<le> \<lceil>1 / x\<rceil> - 1" by linarith
  hence "real (nat (\<lceil>1 / x\<rceil> - 1)) = of_int (\<lceil>1 / x\<rceil> - 1)" by (rule of_nat_nat)
  hence rm: "real m = of_int \<lceil>1 / x\<rceil> - 1" unfolding m_def by simp
  have m: "0 < m" "real m < 1 / x" "1 / x \<le> real m + 1"
  proof -
    from c have "0 < \<lceil>1 / x\<rceil> - 1" by linarith
    thus "0 < m" unfolding m_def by (simp only: zero_less_nat_eq)
    show "real m < 1 / x" unfolding rm by linarith
    show "1 / x \<le> real m + 1" unfolding rm by linarith
  qed
  from bits_bounds [OF m(1)] have b: "2 ^ (bits m - 1) \<le> m" "m < 2 ^ bits m" by simp_all
  from m(1) have bp: "0 < bits m" by (subst bits.simps) simp
  have e: "ilog2 x = - int (bits m)" using False by (simp add: ilog2_def m_def)
  have p: "pow2 (ilog2 x) = 1 / 2 ^ bits m" unfolding e using bp by (simp add: pow2_def)
  from bp have two: "(2::real) * (1 / 2 ^ bits m) = 1 / 2 ^ (bits m - 1)"
    by (cases "bits m") simp_all
  from b(1) have "real (2 ^ (bits m - 1)) \<le> real m" by (simp only: of_nat_le_iff)
  hence lo: "(2::real) ^ (bits m - 1) \<le> real m" by simp
  have hi: "real m + 1 \<le> 2 ^ bits m"
  proof -
    from b(2) have "Suc m \<le> 2 ^ bits m" by simp
    hence "real (Suc m) \<le> real (2 ^ bits m)" by (simp only: of_nat_le_iff)
    thus ?thesis by simp
  qed
  from m(3) hi have "1 / x \<le> 2 ^ bits m" by linarith
  hence A: "1 / 2 ^ bits m \<le> x" using assms
    by (simp add: field_simps)
  from m(2) lo have "2 ^ (bits m - 1) < 1 / x" by linarith
  hence B: "x < 1 / 2 ^ (bits m - 1)" using assms
    by (simp add: field_simps)
  from A B show ?thesis unfolding p two by simp
qed

lemma rne_error: "\<bar>of_int (rne x) - x\<bar> \<le> 1 / 2"
proof -
  define r where "r = x - of_int \<lfloor>x\<rfloor>"
  have r: "0 \<le> r" "r < 1" unfolding r_def by linarith+
  have x: "x = of_int \<lfloor>x\<rfloor> + r" by (simp add: r_def)
  consider "r < 1 / 2" | "1 / 2 < r" | "r = 1 / 2" by linarith
  then show ?thesis
  proof cases
    case 1
    hence "rne x = \<lfloor>x\<rfloor>" by (simp add: rne_def r_def)
    with 1 r show ?thesis by (simp add: r_def)
  next
    case 2
    hence "rne x = \<lfloor>x\<rfloor> + 1" by (simp add: rne_def r_def)
    with 2 r show ?thesis by (simp add: r_def)
  next
    case 3
    hence "rne x = \<lfloor>x\<rfloor> \<or> rne x = \<lfloor>x\<rfloor> + 1" by (simp add: rne_def r_def)
    with 3 show ?thesis by (auto simp: r_def)
  qed
qed

lemma round_to_error:
  "\<bar>round_to p x - x\<bar> \<le> ulp p \<bar>x\<bar> / 2"
proof (cases "x = 0")
  case True
  then show ?thesis using pow2_pos [of "ilog2 0 - (int p - 1)"] by (simp add: round_to_def ulp_def)
next
  case False
  define u where "u = ulp p \<bar>x\<bar>"
  have u: "0 < u" unfolding u_def ulp_def by (rule pow2_pos)
  define k where "k = rne (\<bar>x\<bar> / u)"
  from rne_error [of "\<bar>x\<bar> / u"] have "\<bar>of_int k - \<bar>x\<bar> / u\<bar> \<le> 1 / 2" unfolding k_def .
  hence "\<bar>of_int k - \<bar>x\<bar> / u\<bar> * u \<le> 1 / 2 * u" using u by (simp only: mult_le_cancel_right_pos)
  hence "\<bar>(of_int k - \<bar>x\<bar> / u) * u\<bar> \<le> u / 2" using u by (simp add: abs_mult)
  hence d: "\<bar>of_int k * u - \<bar>x\<bar>\<bar> \<le> u / 2" using u by (simp add: algebra_simps)
  have r: "round_to p x = sgn x * (of_int k * u)"
    using False by (simp add: round_to_def u_def k_def)
  have "\<bar>sgn x * (of_int k * u) - x\<bar> = \<bar>sgn x * (of_int k * u - \<bar>x\<bar>)\<bar>"
    by (metis mult_sgn_abs right_diff_distrib)
  also have "\<dots> = \<bar>of_int k * u - \<bar>x\<bar>\<bar>" using False by (simp add: abs_mult abs_sgn_eq)
  finally show ?thesis using d unfolding r u_def by simp
qed

section \<open>Instant MPG and its clamp\<close>

lemmas flt_defs = binary32_def binary64_def round_to_def ulp_def ilog2_def pow2_def rne_def

text \<open>The value a MAF reading of 84.67 and of 0.621371 have in their formats.\<close>

lemma binary32_84_67: "binary32 84.67 = 5548933 / 65536"
  by (simp add: flt_defs bits.simps)

lemma binary64_0_621371: "binary64 0.621371 = 5596812408117665 / 9007199254740992"
  by (simp add: flt_defs bits.simps)

text \<open>
  Two readings at which the formula is next to a half: 137 km/h with a MAF reading of
  84.67 g/s, and 152 km/h with 240.07 g/s. In the formats of the code the value under
  \<^verbatim>\<open>round\<close> is 11.4999995 and 4.5000004, and 11 and 5 are printed.
\<close>

lemma inst_mpg_137: "instant_mpg_display 99 137 (binary32 84.67) = PrintNumber 11"
  by (simp add: instant_mpg_display_def inst_mpg_def isInstantMpgValid_def mpg_formula_def
        c_round_def flt_defs bits.simps)

lemma inst_mpg_152: "instant_mpg_display 99 152 (binary32 240.07) = PrintNumber 5"
  by (simp add: instant_mpg_display_def inst_mpg_def isInstantMpgValid_def mpg_formula_def
        c_round_def flt_defs bits.simps)

lemma c_round_of_int: "c_round (of_int k) = of_int k"
proof (cases "0 \<le> k")
  case True
  have "\<lfloor>(of_int k :: real) + 1 / 2\<rfloor> = k" by linarith
  with True show ?thesis by (simp add: c_round_def)
next
  case False
  have "\<lfloor>- (of_int k :: real) + 1 / 2\<rfloor> = - k" by linarith
  with False show ?thesis by (simp add: c_round_def)
qed

lemma c_round_le_int:
  assumes "x \<le> of_int k"
  shows "c_round x \<le> of_int k"
proof (cases "0 \<le> x")
  case True
  from assms have "\<lfloor>x + 1 / 2\<rfloor> \<le> k" by linarith
  hence "(of_int \<lfloor>x + 1 / 2\<rfloor> :: real) \<le> of_int k" by (simp only: of_int_le_iff)
  with True show ?thesis by (simp add: c_round_def)
next
  case False
  hence "0 \<le> \<lfloor>- x + 1 / 2\<rfloor>" by linarith
  moreover from False assms have "(0::real) \<le> of_int k \<or> x \<le> of_int k" by simp
  ultimately have "- \<lfloor>- x + 1 / 2\<rfloor> \<le> k" using assms by linarith
  hence "(of_int (- \<lfloor>- x + 1 / 2\<rfloor>) :: real) \<le> of_int k" by (simp only: of_int_le_iff)
  with False show ?thesis by (simp add: c_round_def)
qed

text \<open>
  C9. With the clamp literal 90 or 99. The value under \<^verbatim>\<open>round\<close> is the formula
  \<open>(14.7 * 6.17 * 4.54 * kph * 0.621371) / (3600 * maf / 100)\<close>, each operation in the
  format the code evaluates it in. Unless speed and MAF are both positive no number is
  printed (\<open>00\<close> or \<open>--\<close> instead). When both are positive, \<^verbatim>\<open>inst_mpg\<close> is the
  rounded value of the formula, replaced by the literal when it exceeds the literal; the
  printed number never exceeds the literal, it is the literal whenever the computed
  value exceeds it, and a computed value of 150 is printed as the literal.
\<close>

theorem inst_mpg_clamped:
  assumes "cap = 90 \<or> cap = 99"
  shows "mpg_formula kph maf =
           binary64
             (binary64 (binary64 (binary64 (binary64 (binary64 14.7 * binary64 6.17)
                  * binary64 4.54) * kph) * binary64 0.621371)
              / binary32 (binary32 (3600 * maf) / 100)) \<and>
         (\<not> (0 < kph \<and> 0 < maf) \<longrightarrow>
            instant_mpg_display cap kph maf = PrintText ''00'' \<or>
            instant_mpg_display cap kph maf = PrintText ''--'') \<and>
         (0 < kph \<and> 0 < maf \<longrightarrow>
            inst_mpg cap kph maf =
              (if cap < binary32 (c_round (mpg_formula kph maf)) then cap
               else binary32 (c_round (mpg_formula kph maf))) \<and>
            instant_mpg_display cap kph maf = PrintNumber (c_round (inst_mpg cap kph maf)) \<and>
            c_round (inst_mpg cap kph maf) \<le> cap \<and>
            (cap < binary32 (c_round (mpg_formula kph maf)) \<longrightarrow>
               instant_mpg_display cap kph maf = PrintNumber cap) \<and>
            (binary32 (c_round (mpg_formula kph maf)) = 150 \<longrightarrow>
               instant_mpg_display cap kph maf = PrintNumber cap))"
proof -
  from assms obtain k :: int where k: "cap = of_int k" "of_int k < (150 :: real)"
  proof
    assume "cap = 90"
    hence "cap = of_int 90" "of_int 90 < (150 :: real)" by simp_all
    thus ?thesis by (rule that)
  next
    assume "cap = 99"
    hence "cap = of_int 99" "of_int 99 < (150 :: real)" by simp_all
    thus ?thesis by (rule that)
  qed
  define m where "m = binary32 (c_round (mpg_formula kph maf))"
  have frm: "mpg_formula kph maf =
           binary64
             (binary64 (binary64 (binary64 (binary64 (binary64 14.7 * binary64 6.17)
                  * binary64 4.54) * kph) * binary64 0.621371)
              / binary32 (binary32 (3600 * maf) / 100))"
    by (simp only: mpg_formula_def)
  have inv: "\<not> (0 < kph \<and> 0 < maf) \<longrightarrow>
            instant_mpg_display cap kph maf = PrintText ''00'' \<or>
            instant_mpg_display cap kph maf = PrintText ''--''"
    by (simp add: instant_mpg_display_def isInstantMpgValid_def)
  have val: "inst_mpg cap kph maf = (if cap < m then cap else m) \<and>
            instant_mpg_display cap kph maf = PrintNumber (c_round (inst_mpg cap kph maf)) \<and>
            c_round (inst_mpg cap kph maf) \<le> cap \<and>
            (cap < m \<longrightarrow> instant_mpg_display cap kph maf = PrintNumber cap) \<and>
            (m = 150 \<longrightarrow> instant_mpg_display cap kph maf = PrintNumber cap)"
    if pos: "0 < kph" "0 < maf"
  proof -
    have i: "inst_mpg cap kph maf = (if cap < m then cap else m)"
      using pos by (simp add: inst_mpg_def isInstantMpgValid_def m_def)
    have d: "instant_mpg_display cap kph maf = PrintNumber (c_round (inst_mpg cap kph maf))"
      using pos by (simp add: instant_mpg_display_def isInstantMpgValid_def)
    from i have "inst_mpg cap kph maf \<le> of_int k" by (simp add: k(1))
    hence "c_round (inst_mpg cap kph maf) \<le> of_int k" by (rule c_round_le_int)
    hence le: "c_round (inst_mpg cap kph maf) \<le> cap" by (simp add: k(1))
    have c: "cap < m \<longrightarrow> instant_mpg_display cap kph maf = PrintNumber cap"
      using i d c_round_of_int [of k] by (simp add: k(1))
    have e: "m = 150 \<longrightarrow> instant_mpg_display cap kph maf = PrintNumber cap"
      using c k(2) by (simp add: k(1))
    from i d le c e show ?thesis by simp
  qed
  from frm inv val show ?thesis unfolding m_def by blast
qed

text \<open>
  At 120 km/h and a MAF reading of 5.69 g/s the computed value is 150 and 99 is printed;
  at standstill with the engine idling \<open>00\<close> is printed.
\<close>

theorem inst_mpg_clamped_witness:
  "((99::real) = 90 \<or> (99::real) = 99) \<and> 0 < (120::real) \<and> 0 < binary32 5.69 \<and>
   binary32 (c_round (mpg_formula 120 (binary32 5.69))) = 150 \<and>
   instant_mpg_display 99 120 (binary32 5.69) = PrintNumber 99 \<and>
   \<not> (0 < (0::real) \<and> 0 < (3::real)) \<and>
   instant_mpg_display 99 0 3 = PrintText ''00''"
proof -
  have c: "(99::real) = 90 \<or> (99::real) = 99" by simp
  have b: "binary32 5.69 = 11932795 / 2097152" by (simp add: flt_defs bits.simps)
  have p: "0 < (120::real)" "0 < binary32 5.69" unfolding b by simp_all
  have f: "binary32 (c_round (mpg_formula 120 (binary32 5.69))) = 150"
    unfolding b by (simp add: mpg_formula_def c_round_def flt_defs bits.simps)
  have n: "\<not> (0 < (0::real) \<and> 0 < (3::real))" by simp
  have z: "instant_mpg_display 99 0 3 = PrintText ''00''"
    using inst_mpg_clamped [OF c, of 0 3] by (simp add: instant_mpg_display_def isInstantMpgValid_def)
  from inst_mpg_clamped [OF c, of 120 "binary32 5.69"] f p
  have "instant_mpg_display 99 120 (binary32 5.69) = PrintNumber 99" by blast
  with c f p n z show ?thesis by blast
qed

section \<open>Moving time at standstill\<close>

text \<open>
  C10. A poll whose sample is not positive never changes the drive timer. A successful
  speed poll with sample 0, a cached previous sample (\<^verbatim>\<open>lastSpeedTime\<close> not 0) and a
  positive previous speed adds the trapezoid \<open>prev / 2 * hours\<close> to the cumulative
  distance, which grows strictly when the tick has moved, while the drive timer stays.
\<close>

theorem standstill_sample:
  "(\<not> 0 < v \<longrightarrow>
      global_totalDistanceTraveledTimer (snd (obdTask_iter (Poll v rx now) (s, g)))
        = global_totalDistanceTraveledTimer g) \<and>
   (currentState s = OBD_STATE_KPH \<and> lastSpeedTime s \<noteq> 0 \<and> 0 < prev_kph s \<longrightarrow>
      global_totalDistanceTraveled (snd (obdTask_iter (Poll 0 ELM_SUCCESS now) (s, g)))
        = global_totalDistanceTraveled g
          + prev_kph s / 2 * (real (unat (now - lastSpeedTime s)) / 3600000) \<and>
      (now \<noteq> lastSpeedTime s \<longrightarrow>
         global_totalDistanceTraveled g
           < global_totalDistanceTraveled (snd (obdTask_iter (Poll 0 ELM_SUCCESS now) (s, g)))))"
proof -
  have t: "\<not> 0 < v \<longrightarrow>
      global_totalDistanceTraveledTimer (snd (obdTask_iter (Poll v rx now) (s, g)))
        = global_totalDistanceTraveledTimer g"
    by (cases "currentState s") (simp_all add: step_defs Let_def)
  have d: "global_totalDistanceTraveled (snd (obdTask_iter (Poll 0 ELM_SUCCESS now) (s, g)))
        = global_totalDistanceTraveled g
          + prev_kph s / 2 * (real (unat (now - lastSpeedTime s)) / 3600000) \<and>
      (now \<noteq> lastSpeedTime s \<longrightarrow>
         global_totalDistanceTraveled g
           < global_totalDistanceTraveled (snd (obdTask_iter (Poll 0 ELM_SUCCESS now) (s, g))))"
    if h: "currentState s = OBD_STATE_KPH" "lastSpeedTime s \<noteq> 0" "0 < prev_kph s"
    using h unsigned_real_pos [of "now - lastSpeedTime s"]
    by (auto simp: step_defs Let_def word_greater_zero_iff)
  from t d show ?thesis by blast
qed

theorem standstill_sample_witness:
  "\<not> 0 < (0::real) \<and>
   currentState (fst (obdTask [Poll 60 ELM_SUCCESS 1000, Poll 0 ELM_ERROR 1100]
      (init_statics, init_globals))) = OBD_STATE_KPH \<and>
   lastSpeedTime (fst (obdTask [Poll 60 ELM_SUCCESS 1000, Poll 0 ELM_ERROR 1100]
      (init_statics, init_globals))) \<noteq> 0 \<and>
   0 < prev_kph (fst (obdTask [Poll 60 ELM_SUCCESS 1000, Poll 0 ELM_ERROR 1100]
      (init_statics, init_globals))) \<and>
   global_totalDistanceTraveled (snd (obdTask [Poll 60 ELM_SUCCESS 1000, Poll 0 ELM_ERROR 1100]
      (init_statics, init_globals))) = 0 \<and>
   global_totalDistanceTraveledTimer (snd (obdTask [Poll 60 ELM_SUCCESS 1000, Poll 0 ELM_ERROR 1100]
      (init_statics, init_globals))) = 0 \<and>
   global_totalDistanceTraveled (snd (obdTask_iter (Poll 0 ELM_SUCCESS 361000)
      (obdTask [Poll 60 ELM_SUCCESS 1000, Poll 0 ELM_ERROR 1100]
        (init_statics, init_globals)))) = 3 \<and>
   global_totalDistanceTraveledTimer (snd (obdTask_iter (Poll 0 ELM_SUCCESS 361000)
      (obdTask [Poll 60 ELM_SUCCESS 1000, Poll 0 ELM_ERROR 1100]
        (init_statics, init_globals)))) = 0"
proof -
  let ?sg = "obdTask [Poll 60 ELM_SUCCESS 1000, Poll 0 ELM_ERROR 1100] (init_statics, init_globals)"
  have st: "currentState (fst ?sg) = OBD_STATE_KPH" by (simp add: step_defs init_defs)
  have lt: "lastSpeedTime (fst ?sg) = 1000" by (simp add: step_defs init_defs)
  have pk: "prev_kph (fst ?sg) = 60" by (simp add: step_defs init_defs)
  have di: "global_totalDistanceTraveled (snd ?sg) = 0" by (simp add: step_defs init_defs)
  have ti: "global_totalDistanceTraveledTimer (snd ?sg) = 0" by (simp add: step_defs init_defs)
  have nz: "lastSpeedTime (fst ?sg) \<noteq> 0" unfolding lt by simp
  have pp: "0 < prev_kph (fst ?sg)" unfolding pk by simp
  have z: "\<not> 0 < (0::real)" by simp
  have "global_totalDistanceTraveled (snd (obdTask_iter (Poll 0 ELM_SUCCESS 361000) ?sg)) = 3 \<and>
        global_totalDistanceTraveledTimer (snd (obdTask_iter (Poll 0 ELM_SUCCESS 361000) ?sg)) = 0"
    using standstill_sample [where s = "fst ?sg" and g = "snd ?sg" and v = 0
        and rx = ELM_SUCCESS and now = 361000] st nz pp
    unfolding lt pk di ti by simp
  with z st nz pp di ti show ?thesis by blast
qed

end
